theory Spec2Isabelle
  imports Complex_Main "HOL-Library.Multiset"
begin

section \<open>The analytics module of MufflerManOS\<close>

text \<open>
  A shallow embedding of \<^verbatim>\<open>src/modules/analytics/analytics.ts\<close> (class
  \<^verbatim>\<open>AnalyticsModule\<close>) and of the broadcast timer of the application's
  \<^verbatim>\<open>setupWebSockets\<close>.

  \<^item> A JavaScript \<^verbatim>\<open>Map\<close> is an association list in insertion order;
    \<^verbatim>\<open>set\<close> on a present key replaces the value in place, on an absent key
    appends.
  \<^item> A \<^verbatim>\<open>Date\<close> is its time value, an integer of milliseconds since the epoch.
  \<^item> A \<^verbatim>\<open>number\<close> that is not a time value is a real; the two literals
    that a comparison depends on are written as the exact value of the double.
  \<^item> The wall clock and \<^verbatim>\<open>Math.random\<close> are oracles: the n-th reading of each
    is a function of n, and the state counts the readings made.
  \<^item> A thrown \<^verbatim>\<open>Error\<close> or a rejected promise is \<open>Inl\<close> of a sum.
\<close>

subsection \<open>Runtime: errors, Map, clock, random numbers, console\<close>

datatype error = Error string | RangeError string

fun Map_set :: "'k \<Rightarrow> 'v \<Rightarrow> ('k \<times> 'v) list \<Rightarrow> ('k \<times> 'v) list" where
  "Map_set k v [] = [(k, v)]"
| "Map_set k v ((k', v') # kvs) =
     (if k' = k then (k, v) # kvs else (k', v') # Map_set k v kvs)"

definition Map_get :: "('k \<times> 'v) list \<Rightarrow> 'k \<Rightarrow> 'v option" where
  "Map_get kvs k = map_of kvs k"

definition Map_values :: "('k \<times> 'v) list \<Rightarrow> 'v list" where
  "Map_values kvs = map snd kvs"

text \<open>Console output: \<^verbatim>\<open>console.log(msg)\<close> and \<^verbatim>\<open>console.error(msg, err)\<close>.\<close>

datatype console_entry = Log string | ErrorLog string error

text \<open>The six private generator methods, as tags of the invocation trace.\<close>

datatype facet = Revenue | Operations | Customers | Inventory | Performance | Trends

record rng =
  random :: "nat \<Rightarrow> real"
  draws :: nat

definition Math_random :: "rng \<Rightarrow> real \<times> rng" where
  "Math_random g = (random g (draws g), g\<lparr>draws := Suc (draws g)\<rparr>)"

text \<open>
  \<open>toString36\<close> stands for \<^verbatim>\<open>Number.prototype.toString(36)\<close> of the runtime, whose digits
  depend on the binary representation of the double. \<open>calls\<close> is the trace of generator
  invocations made by \<^verbatim>\<open>generateAnalyticsData\<close>.
\<close>

record world =
  clock :: "nat \<Rightarrow> int"
  reads :: nat
  rnd :: rng
  toString36 :: "real \<Rightarrow> string"
  console :: "console_entry list"
  calls :: "facet list"

definition Date_now :: "world \<Rightarrow> int \<times> world" where
  "Date_now w = (clock w (reads w), w\<lparr>reads := Suc (reads w)\<rparr>)"

definition console_log :: "string \<Rightarrow> world \<Rightarrow> world" where
  "console_log msg w = w\<lparr>console := console w @ [Log msg]\<rparr>"

definition console_error :: "string \<Rightarrow> error \<Rightarrow> world \<Rightarrow> world" where
  "console_error msg e w = w\<lparr>console := console w @ [ErrorLog msg e]\<rparr>"

definition world_random :: "world \<Rightarrow> real \<times> world" where
  "world_random w = (case Math_random (rnd w) of (r, g) \<Rightarrow> (r, w\<lparr>rnd := g\<rparr>))"

text \<open>Decimal rendering of an integer, as a template literal interpolates it.\<close>

definition digit_char :: "nat \<Rightarrow> char" where
  "digit_char n = ''0123456789'' ! (n mod 10)"

function decimal_nat :: "nat \<Rightarrow> string" where
  "decimal_nat n =
     (if n < 10 then [digit_char n] else decimal_nat (n div 10) @ [digit_char n])"
  by pat_completeness auto
termination
  by (relation "measure (\<lambda>n. n)") auto

declare decimal_nat.simps [simp del]

definition decimal :: "int \<Rightarrow> string" where
  "decimal i = (if i < 0 then ''-'' @ decimal_nat (nat (- i)) else decimal_nat (nat i))"

text \<open>\<^verbatim>\<open>s.substr(start, length)\<close> for non-negative arguments.\<close>

definition substr :: "string \<Rightarrow> nat \<Rightarrow> nat \<Rightarrow> string" where
  "substr s start len = take len (drop start s)"

text \<open>\<^verbatim>\<open>Math.random().toString(36).substr(2, 9)\<close>\<close>

definition random_suffix :: "world \<Rightarrow> string \<times> world" where
  "random_suffix w = (case world_random w of (r, w') \<Rightarrow> (substr (toString36 w' r) 2 9, w'))"

subsection \<open>Data model\<close>

datatype any = Str string | Num real | Bool bool

text \<open>
  The anonymous element types of the facet arrays are tuples, components in the order of
  the interface declaration.
\<close>

record RevenueAnalytics =
  totalRevenue :: real
  monthlyRevenue :: "(string \<times> real \<times> real) list"
  revenueByService :: "(string \<times> real \<times> real) list"
  revenueByTechnician :: "(string \<times> real \<times> real) list"
  averageTicketValue :: real
  profitMargin :: real
  topRevenueDays :: "(string \<times> real) list"

record OperationsAnalytics =
  totalJobs :: real
  completedJobs :: real
  pendingJobs :: real
  averageJobDuration :: real
  jobsByPriority :: "(string \<times> real \<times> real) list"
  jobsByStatus :: "(string \<times> real \<times> real) list"
  bayUtilization :: "(string \<times> real \<times> real) list"
  equipmentUtilization :: "(string \<times> real \<times> real) list"
  efficiencyMetrics :: "real \<times> real \<times> real \<times> real"

record CustomerAnalytics =
  totalCustomers :: real
  activeCustomers :: real
  newCustomers :: real
  customerRetention :: real
  averageCustomerValue :: real
  customerLifetimeValue :: real
  topCustomers :: "(string \<times> real \<times> real) list"
  customerSegments :: "(string \<times> real \<times> real) list"
  customerSatisfaction :: "real \<times> real \<times> (real \<times> real) list"

record InventoryAnalytics =
  totalItems :: real
  totalValue :: real
  lowStockItems :: real
  outOfStockItems :: real
  turnoverRate :: real
  topSellingItems :: "(string \<times> real \<times> real) list"
  slowMovingItems :: "(string \<times> real \<times> real) list"
  categoryPerformance :: "(string \<times> real \<times> real) list"
  supplierPerformance :: "(string \<times> real \<times> real \<times> real) list"

record PerformanceAnalytics =
  technicianPerformance :: "(string \<times> real \<times> real \<times> real \<times> real) list"
  bayPerformance :: "(string \<times> real \<times> real \<times> real \<times> real) list"
  equipmentPerformance :: "(string \<times> real \<times> real \<times> real) list"
  qualityMetrics :: "real \<times> real \<times> real \<times> real"

datatype Trend = Increasing | Decreasing | Stable

record TrendAnalytics =
  revenueTrend :: "(string \<times> real \<times> real) list"
  customerTrend :: "(string \<times> real \<times> real) list"
  jobTrend :: "(string \<times> real \<times> real) list"
  seasonalPatterns :: "(string \<times> real \<times> bool) list"
  serviceTrends :: "(string \<times> Trend \<times> real) list"

record AnalyticsData =
  revenue :: RevenueAnalytics
  operations :: OperationsAnalytics
  customers :: CustomerAnalytics
  inventory :: InventoryAnalytics
  performance :: PerformanceAnalytics
  trends :: TrendAnalytics
  generatedAt :: int

datatype ReportType = Daily | Weekly | Monthly | Quarterly | Annual | Custom

record Report =
  r_id :: string
  r_name :: string
  r_type :: ReportType
  r_data :: AnalyticsData
  r_generatedBy :: string
  r_generatedAt :: int
  r_parameters :: "(string \<times> any) list option"

datatype WidgetType = Chart | Metric | Table | Gauge | ListWidget

record Position =
  pos_x :: real
  pos_y :: real
  pos_width :: real
  pos_height :: real

record DashboardWidget =
  w_id :: string
  w_type :: WidgetType
  w_title :: string
  w_dataSource :: string
  w_configuration :: "(string \<times> any) list"
  w_position :: Position

record DashboardLayout =
  l_columns :: real
  l_rows :: real
  l_widgets :: "DashboardWidget list"

record Dashboard =
  d_id :: string
  d_name :: string
  d_description :: string
  d_widgets :: "DashboardWidget list"
  d_layout :: DashboardLayout
  d_isPublic :: bool
  d_createdBy :: string
  d_createdAt :: int
  d_updatedAt :: int

text \<open>\<^verbatim>\<open>Partial<Dashboard>\<close>: every field may be absent.\<close>

record DashboardPartial =
  p_id :: "string option"
  p_name :: "string option"
  p_description :: "string option"
  p_widgets :: "DashboardWidget list option"
  p_layout :: "DashboardLayout option"
  p_isPublic :: "bool option"
  p_createdBy :: "string option"
  p_createdAt :: "int option"
  p_updatedAt :: "int option"

text \<open>\<^verbatim>\<open>Omit<Dashboard, 'id' | 'createdAt' | 'updatedAt'>\<close>\<close>

record DashboardInput =
  i_name :: string
  i_description :: string
  i_widgets :: "DashboardWidget list"
  i_layout :: DashboardLayout
  i_isPublic :: bool
  i_createdBy :: string

record CacheEntry =
  data :: AnalyticsData
  timestamp :: int

record AnalyticsModule =
  reports :: "(string \<times> Report) list"
  dashboards :: "(string \<times> Dashboard) list"
  dataCache :: "(string \<times> CacheEntry) list"

text \<open>
  The private field \<^verbatim>\<open>cacheExpiry = 5 * 60 * 1000\<close> is initialised once and never
  assigned again.
\<close>

definition cacheExpiry :: int where
  "cacheExpiry = 5 * 60 * 1000"

subsection \<open>Construction and dashboards\<close>

definition sampleDashboard :: "int \<Rightarrow> int \<Rightarrow> Dashboard" where
  "sampleDashboard created updated =
     \<lparr> d_id = ''dashboard-001'',
       d_name = ''Operations Overview'',
       d_description = ''Real-time overview of shop operations and key metrics'',
       d_widgets =
         [ \<lparr> w_id = ''widget-001'', w_type = Metric, w_title = ''Today's Revenue'',
             w_dataSource = ''revenue.today'',
             w_configuration = [(''format'', Str ''currency''), (''color'', Str ''green'')],
             w_position = \<lparr> pos_x = 0, pos_y = 0, pos_width = 2, pos_height = 1 \<rparr> \<rparr>,
           \<lparr> w_id = ''widget-002'', w_type = Metric, w_title = ''Active Jobs'',
             w_dataSource = ''operations.activeJobs'',
             w_configuration = [(''format'', Str ''number''), (''color'', Str ''blue'')],
             w_position = \<lparr> pos_x = 2, pos_y = 0, pos_width = 2, pos_height = 1 \<rparr> \<rparr>,
           \<lparr> w_id = ''widget-003'', w_type = Chart, w_title = ''Revenue Trend'',
             w_dataSource = ''revenue.monthly'',
             w_configuration = [(''chartType'', Str ''line''), (''timeRange'', Str ''30d'')],
             w_position = \<lparr> pos_x = 0, pos_y = 1, pos_width = 4, pos_height = 2 \<rparr> \<rparr> ],
       d_layout = \<lparr> l_columns = 4, l_rows = 3, l_widgets = [] \<rparr>,
       d_isPublic = True,
       d_createdBy = ''system'',
       d_createdAt = created,
       d_updatedAt = updated \<rparr>"

definition initializeSampleDashboards :: "AnalyticsModule \<Rightarrow> world \<Rightarrow> world \<times> AnalyticsModule" where
  "initializeSampleDashboards m w =
     (case Date_now w of (created, w1) \<Rightarrow>
      case Date_now w1 of (updated, w2) \<Rightarrow>
        let sample = sampleDashboard created updated
        in (w2, m\<lparr>dashboards := Map_set (d_id sample) sample (dashboards m)\<rparr>))"

text \<open>\<^verbatim>\<open>new AnalyticsModule()\<close>: the field initialisers, then the constructor body.\<close>

definition new_AnalyticsModule :: "world \<Rightarrow> world \<times> AnalyticsModule" where
  "new_AnalyticsModule w =
     initializeSampleDashboards \<lparr> reports = [], dashboards = [], dataCache = [] \<rparr> w"

definition getDashboard :: "string \<Rightarrow> AnalyticsModule \<Rightarrow> Dashboard option" where
  "getDashboard ident m = Map_get (dashboards m) ident"

definition getAllDashboards :: "AnalyticsModule \<Rightarrow> Dashboard list" where
  "getAllDashboards m = Map_values (dashboards m)"

text \<open>UTF-8 bytes of the pictographs that open the console messages.\<close>

definition emoji_bar_chart :: string where
  "emoji_bar_chart = [CHR 0xF0, CHR 0x9F, CHR 0x93, CHR 0x8A]"

definition emoji_chart_up :: string where
  "emoji_chart_up = [CHR 0xF0, CHR 0x9F, CHR 0x93, CHR 0x88]"

definition emoji_memo :: string where
  "emoji_memo = [CHR 0xF0, CHR 0x9F, CHR 0x93, CHR 0x9D]"


definition createDashboard ::
  "DashboardInput \<Rightarrow> AnalyticsModule \<Rightarrow> world \<Rightarrow> Dashboard \<times> world \<times> AnalyticsModule" where
  "createDashboard dashboard m w =
     (case Date_now w of (t, w1) \<Rightarrow>
      case random_suffix w1 of (sfx, w2) \<Rightarrow>
      case Date_now w2 of (created, w3) \<Rightarrow>
      case Date_now w3 of (updated, w4) \<Rightarrow>
        let newDashboard =
              \<lparr> d_id = ''dashboard-'' @ decimal t @ ''-'' @ sfx,
                d_name = i_name dashboard,
                d_description = i_description dashboard,
                d_widgets = i_widgets dashboard,
                d_layout = i_layout dashboard,
                d_isPublic = i_isPublic dashboard,
                d_createdBy = i_createdBy dashboard,
                d_createdAt = created,
                d_updatedAt = updated \<rparr>
        in (newDashboard,
            console_log (emoji_chart_up @ '' Created dashboard: '' @ d_name newDashboard) w4,
            m\<lparr>dashboards := Map_set (d_id newDashboard) newDashboard (dashboards m)\<rparr>))"

text \<open>
  The object spread \<^verbatim>\<open>{ ...dashboard, ...updates, updatedAt: now }\<close>: a field present in
  \<open>updates\<close> overrides the one of \<open>dashboard\<close>, and \<open>updatedAt\<close> is overridden last.
\<close>

definition orElse :: "'a option \<Rightarrow> 'a \<Rightarrow> 'a" where
  "orElse u v = (case u of None \<Rightarrow> v | Some v' \<Rightarrow> v')"

definition spread :: "Dashboard \<Rightarrow> DashboardPartial \<Rightarrow> int \<Rightarrow> Dashboard" where
  "spread dashboard updates now =
     \<lparr> d_id = orElse (p_id updates) (d_id dashboard),
       d_name = orElse (p_name updates) (d_name dashboard),
       d_description = orElse (p_description updates) (d_description dashboard),
       d_widgets = orElse (p_widgets updates) (d_widgets dashboard),
       d_layout = orElse (p_layout updates) (d_layout dashboard),
       d_isPublic = orElse (p_isPublic updates) (d_isPublic dashboard),
       d_createdBy = orElse (p_createdBy updates) (d_createdBy dashboard),
       d_createdAt = orElse (p_createdAt updates) (d_createdAt dashboard),
       d_updatedAt = now \<rparr>"

definition updateDashboard ::
  "string \<Rightarrow> DashboardPartial \<Rightarrow> AnalyticsModule \<Rightarrow> world \<Rightarrow> world \<times> AnalyticsModule" where
  "updateDashboard ident updates m w =
     (case Map_get (dashboards m) ident of
        None \<Rightarrow> (w, m)
      | Some dashboard \<Rightarrow>
          (case Date_now w of (now, w1) \<Rightarrow>
             let updatedDashboard = spread dashboard updates now
             in (console_log (emoji_memo @ '' Updated dashboard: '' @ d_name dashboard) w1,
                 m\<lparr>dashboards := Map_set ident updatedDashboard (dashboards m)\<rparr>)))"

text \<open>The update object \<^verbatim>\<open>{ name: X }\<close>.\<close>

definition only_name :: "string \<Rightarrow> DashboardPartial" where
  "only_name X =
     \<lparr> p_id = None, p_name = Some X, p_description = None, p_widgets = None,
       p_layout = None, p_isPublic = None, p_createdBy = None, p_createdAt = None,
       p_updatedAt = None \<rparr>"

subsection \<open>The facet generators of the source\<close>

text \<open>
  \<^verbatim>\<open>Array.from({ length: n }, (_, i) => f(i))\<close> calls \<open>f\<close> at \<open>0, ..., n - 1\<close> in this
  order; each call may draw random numbers.
\<close>

fun Array_from :: "nat list \<Rightarrow> (nat \<Rightarrow> rng \<Rightarrow> 'a \<times> rng) \<Rightarrow> rng \<Rightarrow> 'a list \<times> rng" where
  "Array_from [] f g = ([], g)"
| "Array_from (i # js) f g =
     (case f i g of (x, g1) \<Rightarrow>
      case Array_from js f g1 of (xs, g2) \<Rightarrow> (x # xs, g2))"

text \<open>
  \<^verbatim>\<open>new Date(2024, i, 1).toLocaleDateString('en-US', { month: 'short' })\<close> for
  \<open>i\<close> from 0 to 11.
\<close>

definition monthShort :: "nat \<Rightarrow> string" where
  "monthShort i =
     [''Jan'', ''Feb'', ''Mar'', ''Apr'', ''May'', ''Jun'',
      ''Jul'', ''Aug'', ''Sep'', ''Oct'', ''Nov'', ''Dec''] ! (i mod 12)"

text \<open>
  The element \<^verbatim>\<open>{ month, v: base + Math.random() * sp, growth: (Math.random() - 0.5) * k }\<close>
  of the generated arrays: two draws, the value first.
\<close>

definition monthPoint :: "real \<Rightarrow> real \<Rightarrow> real \<Rightarrow> nat \<Rightarrow> rng \<Rightarrow> (string \<times> real \<times> real) \<times> rng" where
  "monthPoint base sp k i g =
     (case Math_random g of (r1, g1) \<Rightarrow>
      case Math_random g1 of (r2, g2) \<Rightarrow>
        ((monthShort i, base + r1 * sp, (r2 - 0.5) * k), g2))"

definition generateRevenueAnalytics :: "string \<Rightarrow> rng \<Rightarrow> (error + RevenueAnalytics) \<times> rng" where
  "generateRevenueAnalytics timeRange g =
     (case Math_random g of (r, g1) \<Rightarrow>
      case Array_from [0..<12] (monthPoint 3000 2000 20) g1 of (monthly, g2) \<Rightarrow>
        (Inr \<lparr> totalRevenue = 45000 + r * 15000,
               monthlyRevenue = monthly,
               revenueByService =
                 [(''Oil Change'', 12000, 25), (''Brake Service'', 15000, 30),
                  (''Diagnostics'', 8000, 15), (''Tire Service'', 10000, 20),
                  (''Other'', 5000, 10)],
               revenueByTechnician =
                 [(''Mike Johnson'', 18000, 45), (''Sarah Chen'', 15000, 38),
                  (''Carlos Rodriguez'', 12000, 32)],
               averageTicketValue = 125.5,
               profitMargin = 0.35,
               topRevenueDays =
                 [(''2024-12-15'', 2500), (''2024-12-10'', 2300), (''2024-12-05'', 2100)] \<rparr>,
         g2))"

definition generateOperationsAnalytics :: "string \<Rightarrow> rng \<Rightarrow> (error + OperationsAnalytics) \<times> rng" where
  "generateOperationsAnalytics timeRange g =
     (Inr \<lparr> totalJobs = 156,
            completedJobs = 142,
            pendingJobs = 14,
            averageJobDuration = 2.5,
            jobsByPriority =
              [(''urgent'', 8, 5), (''high'', 25, 16), (''medium'', 89, 57), (''low'', 34, 22)],
            jobsByStatus =
              [(''completed'', 142, 91), (''in-progress'', 8, 5), (''pending'', 6, 4)],
            bayUtilization = [(''Bay 1'', 85, 45), (''Bay 2'', 78, 38), (''Bay 3'', 92, 52)],
            equipmentUtilization =
              [(''Lift 1'', 90, 180), (''Scanner'', 65, 130), (''Compressor'', 45, 90)],
            efficiencyMetrics = (8.5, 2.5, 94, 4.7) \<rparr>,
      g)"

definition generateCustomerAnalytics :: "string \<Rightarrow> rng \<Rightarrow> (error + CustomerAnalytics) \<times> rng" where
  "generateCustomerAnalytics timeRange g =
     (Inr \<lparr> totalCustomers = 245,
            activeCustomers = 189,
            newCustomers = 23,
            customerRetention = 87,
            averageCustomerValue = 185.5,
            customerLifetimeValue = 1250,
            topCustomers =
              [(''John Smith'', 2847.5, 8), (''Sarah Johnson'', 1245.75, 5),
               (''Mike Wilson'', 987.25, 4)],
            customerSegments = [(''Gold'', 45, 18), (''Silver'', 78, 32), (''Bronze'', 122, 50)],
            customerSatisfaction = (4.7, 156, [(5, 89), (4, 45), (3, 15), (2, 5), (1, 2)]) \<rparr>,
      g)"

definition generateInventoryAnalytics :: "string \<Rightarrow> rng \<Rightarrow> (error + InventoryAnalytics) \<times> rng" where
  "generateInventoryAnalytics timeRange g =
     (Inr \<lparr> totalItems = 156,
            totalValue = 45000,
            lowStockItems = 12,
            outOfStockItems = 3,
            turnoverRate = 4.2,
            topSellingItems =
              [(''Synthetic Oil 5W-30'', 48, 431.52), (''Oil Filter'', 25, 324.75),
               (''Brake Pads'', 18, 450)],
            slowMovingItems = [(''Specialty Tool A'', 45, 2), (''Rare Part B'', 38, 1)],
            categoryPerformance =
              [(''Consumables'', 15000, 45), (''Parts'', 20000, 67), (''Tools'', 10000, 44)],
            supplierPerformance =
              [(''AutoZone Supply'', 45, 18000, 4.5), (''NAPA Auto Parts'', 38, 15000, 4.8)] \<rparr>,
      g)"

definition generatePerformanceAnalytics :: "string \<Rightarrow> rng \<Rightarrow> (error + PerformanceAnalytics) \<times> rng" where
  "generatePerformanceAnalytics timeRange g =
     (Inr \<lparr> technicianPerformance =
              [(''Mike Johnson'', 45, 4.8, 92, 18000), (''Sarah Chen'', 38, 4.6, 88, 15000),
               (''Carlos Rodriguez'', 32, 4.9, 95, 12000)],
            bayPerformance =
              [(''Bay 1'', 45, 85, 18000, 2.3), (''Bay 2'', 38, 78, 15000, 2.7),
               (''Bay 3'', 52, 92, 12000, 2.1)],
            equipmentPerformance = [(''Lift 1'', 180, 500, 90), (''Scanner'', 130, 200, 85)],
            qualityMetrics = (2.5, 1.8, 0.5, 97.5) \<rparr>,
      g)"

definition generateTrendAnalytics :: "string \<Rightarrow> rng \<Rightarrow> (error + TrendAnalytics) \<times> rng" where
  "generateTrendAnalytics timeRange g =
     (case Array_from [0..<12] (monthPoint 3000 2000 20) g of (rt, g1) \<Rightarrow>
      case Array_from [0..<12] (monthPoint 20 10 15) g1 of (ct, g2) \<Rightarrow>
      case Array_from [0..<12] (monthPoint 150 50 12) g2 of (jt, g3) \<Rightarrow>
        (Inr \<lparr> revenueTrend = rt,
               customerTrend = ct,
               jobTrend = jt,
               seasonalPatterns =
                 [(''Jan'', 3500, False), (''Feb'', 3200, False), (''Mar'', 3800, False),
                  (''Apr'', 4200, True), (''May'', 4500, True), (''Jun'', 4800, True),
                  (''Jul'', 4600, True), (''Aug'', 4400, True), (''Sep'', 4000, False),
                  (''Oct'', 3800, False), (''Nov'', 3600, False), (''Dec'', 3400, False)],
               serviceTrends =
                 [(''Oil Change'', Stable, 2.5), (''Brake Service'', Increasing, 8.2),
                  (''Diagnostics'', Increasing, 12.1), (''Tire Service'', Decreasing, - 3.4)] \<rparr>,
         g3))"

subsection \<open>Data generation and caching\<close>

text \<open>
  \<^verbatim>\<open>generateAnalyticsData\<close> awaits six methods of \<open>this\<close> in turn. They are passed as a
  record, so that the control flow is stated for any implementation of them, one that
  rejects included; \<open>sourceGenerators\<close> are the six methods of the source. A generator sees
  the time range and the random numbers, as the source's do.
\<close>

record generators =
  genRevenue :: "string \<Rightarrow> rng \<Rightarrow> (error + RevenueAnalytics) \<times> rng"
  genOperations :: "string \<Rightarrow> rng \<Rightarrow> (error + OperationsAnalytics) \<times> rng"
  genCustomers :: "string \<Rightarrow> rng \<Rightarrow> (error + CustomerAnalytics) \<times> rng"
  genInventory :: "string \<Rightarrow> rng \<Rightarrow> (error + InventoryAnalytics) \<times> rng"
  genPerformance :: "string \<Rightarrow> rng \<Rightarrow> (error + PerformanceAnalytics) \<times> rng"
  genTrends :: "string \<Rightarrow> rng \<Rightarrow> (error + TrendAnalytics) \<times> rng"

definition sourceGenerators :: generators where
  "sourceGenerators =
     \<lparr> genRevenue = generateRevenueAnalytics,
       genOperations = generateOperationsAnalytics,
       genCustomers = generateCustomerAnalytics,
       genInventory = generateInventoryAnalytics,
       genPerformance = generatePerformanceAnalytics,
       genTrends = generateTrendAnalytics \<rparr>"

text \<open>One awaited call of a generator: the call is recorded in the trace.\<close>

definition invoke ::
  "facet \<Rightarrow> (string \<Rightarrow> rng \<Rightarrow> (error + 'a) \<times> rng) \<Rightarrow> string \<Rightarrow> world \<Rightarrow> (error + 'a) \<times> world" where
  "invoke f gen timeRange w =
     (case gen timeRange (rnd w) of
        (res, g) \<Rightarrow> (res, w\<lparr>rnd := g, calls := calls w @ [f]\<rparr>))"

text \<open>
  The test \<^verbatim>\<open>cached && Date.now() - cached.timestamp.getTime() < this.cacheExpiry\<close>: the
  clock is read only when an entry exists.
\<close>

definition cacheHit :: "CacheEntry option \<Rightarrow> world \<Rightarrow> AnalyticsData option \<times> world" where
  "cacheHit cached w =
     (case cached of
        None \<Rightarrow> (None, w)
      | Some c \<Rightarrow>
          (case Date_now w of
             (now, w1) \<Rightarrow> (if now - timestamp c < cacheExpiry then Some (data c) else None, w1)))"

text \<open>
  The six awaited calls inside the object literal, in the order in which the literal lists
  them; the first rejection ends the evaluation.
\<close>

definition awaitFacets ::
  "generators \<Rightarrow> string \<Rightarrow> world
     \<Rightarrow> (error + RevenueAnalytics \<times> OperationsAnalytics \<times> CustomerAnalytics \<times>
          InventoryAnalytics \<times> PerformanceAnalytics \<times> TrendAnalytics) \<times> world" where
  "awaitFacets G timeRange w0 =
     (case invoke Revenue (genRevenue G) timeRange w0 of
        (Inl e, w1) \<Rightarrow> (Inl e, w1)
      | (Inr rv, w1) \<Rightarrow>
     (case invoke Operations (genOperations G) timeRange w1 of
        (Inl e, w2) \<Rightarrow> (Inl e, w2)
      | (Inr op, w2) \<Rightarrow>
     (case invoke Customers (genCustomers G) timeRange w2 of
        (Inl e, w3) \<Rightarrow> (Inl e, w3)
      | (Inr cu, w3) \<Rightarrow>
     (case invoke Inventory (genInventory G) timeRange w3 of
        (Inl e, w4) \<Rightarrow> (Inl e, w4)
      | (Inr iv, w4) \<Rightarrow>
     (case invoke Performance (genPerformance G) timeRange w4 of
        (Inl e, w5) \<Rightarrow> (Inl e, w5)
      | (Inr pf, w5) \<Rightarrow>
     (case invoke Trends (genTrends G) timeRange w5 of
        (Inl e, w6) \<Rightarrow> (Inl e, w6)
      | (Inr tr, w6) \<Rightarrow> (Inr (rv, op, cu, iv, pf, tr), w6)))))))"

definition generateAnalyticsData ::
  "generators \<Rightarrow> string \<Rightarrow> AnalyticsModule \<Rightarrow> world
     \<Rightarrow> (error + AnalyticsData) \<times> world \<times> AnalyticsModule" where
  "generateAnalyticsData G timeRange m w =
     (let cacheKey = ''analytics_'' @ timeRange;
          cached = Map_get (dataCache m) cacheKey
      in case cacheHit cached w of
        (Some d, w0) \<Rightarrow> (Inr d, w0, m)
      | (None, w0) \<Rightarrow>
         (case awaitFacets G timeRange w0 of
            (Inl e, w6) \<Rightarrow> (Inl e, w6, m)
          | (Inr (rv, op, cu, iv, pf, tr), w6) \<Rightarrow>
             (case Date_now w6 of (generated, w7) \<Rightarrow>
              case Date_now w7 of (stamp, w8) \<Rightarrow>
                let d = \<lparr> revenue = rv, operations = op, customers = cu, inventory = iv,
                          performance = pf, trends = tr, generatedAt = generated \<rparr>
                in (Inr d, w8,
                    m\<lparr>dataCache :=
                        Map_set cacheKey \<lparr> data = d, timestamp = stamp \<rparr> (dataCache m)\<rparr>))))"

text \<open>Called without an argument, the parameter defaults to \<^verbatim>\<open>'month'\<close>.\<close>

definition generateAnalyticsData_default ::
  "generators \<Rightarrow> AnalyticsModule \<Rightarrow> world \<Rightarrow> (error + AnalyticsData) \<times> world \<times> AnalyticsModule" where
  "generateAnalyticsData_default G m w = generateAnalyticsData G ''month'' m w"

subsection \<open>Reports\<close>

text \<open>
  \<^verbatim>\<open>generateReport\<close> declares \<open>timeRange\<close> a \<^verbatim>\<open>string\<close> and passes it on
  \<^verbatim>\<open>as any\<close>.
\<close>

definition generateReport ::
  "generators \<Rightarrow> string \<Rightarrow> ReportType \<Rightarrow> string \<Rightarrow> string \<Rightarrow> AnalyticsModule \<Rightarrow> world
     \<Rightarrow> (error + Report) \<times> world \<times> AnalyticsModule" where
  "generateReport G name type timeRange generatedBy m w =
     (case generateAnalyticsData G timeRange m w of
        (Inl e, w1, m1) \<Rightarrow> (Inl e, w1, m1)
      | (Inr d, w1, m1) \<Rightarrow>
         (case Date_now w1 of (t, w2) \<Rightarrow>
          case random_suffix w2 of (sfx, w3) \<Rightarrow>
          case Date_now w3 of (generated, w4) \<Rightarrow>
            let report =
                  \<lparr> r_id = ''report-'' @ decimal t @ ''-'' @ sfx,
                    r_name = name,
                    r_type = type,
                    r_data = d,
                    r_generatedBy = generatedBy,
                    r_generatedAt = generated,
                    r_parameters = None \<rparr>
            in (Inr report,
                console_log (emoji_bar_chart @ '' Generated report: '' @ name) w4,
                m1\<lparr>reports := Map_set (r_id report) report (reports m1)\<rparr>)))"

definition getReport :: "string \<Rightarrow> AnalyticsModule \<Rightarrow> Report option" where
  "getReport ident m = Map_get (reports m) ident"




subsection \<open>Export\<close>


definition DayFromYear :: "int \<Rightarrow> int" where
  "DayFromYear y =
     365 * (y - 1970) + (y - 1969) div 4 - (y - 1901) div 100 + (y - 1601) div 400"












subsection \<open>Alerts and real-time metrics\<close>

datatype AlertType = Warning | ErrorAlert | Info

datatype Severity = Low | Medium | High

record Alert =
  a_type :: AlertType
  a_message :: string
  a_severity :: Severity
  a_timestamp :: int

text \<open>The doubles that the literals \<^verbatim>\<open>0.7\<close> and \<^verbatim>\<open>0.8\<close> denote.\<close>

definition double_0_7 :: real where
  "double_0_7 = 3152519739159347 / 4503599627370496"

definition double_0_8 :: real where
  "double_0_8 = 3602879701896397 / 4503599627370496"

definition checkAlerts :: "world \<Rightarrow> Alert list \<times> world" where
  "checkAlerts w =
     (let alerts = []
      in case world_random w of (r1, w1) \<Rightarrow>
         case (if r1 > double_0_7
               then (case Date_now w1 of (t, w') \<Rightarrow>
                       (alerts @ [\<lparr> a_type = Warning,
                                    a_message = ''5 items are running low on stock'',
                                    a_severity = Medium, a_timestamp = t \<rparr>], w'))
               else (alerts, w1)) of (alerts1, w2) \<Rightarrow>
         case world_random w2 of (r2, w3) \<Rightarrow>
           (if r2 > double_0_8
            then (case Date_now w3 of (t, w') \<Rightarrow>
                    (alerts1 @ [\<lparr> a_type = ErrorAlert,
                                  a_message = ''Lift 2 requires maintenance'',
                                  a_severity = High, a_timestamp = t \<rparr>], w'))
            else (alerts1, w3)))"

record RealTimeMetrics =
  currentJobs :: real
  availableBays :: real
  todayRevenue :: real
  todayJobs :: real
  activeTechnicians :: real
  queueLength :: real

definition getRealTimeMetrics :: "world \<Rightarrow> (error + RealTimeMetrics) \<times> world" where
  "getRealTimeMetrics w =
     (Inr \<lparr> currentJobs = 8, availableBays = 1, todayRevenue = 1250.75, todayJobs = 12,
            activeTechnicians = 3, queueLength = 4 \<rparr>, w)"

subsection \<open>The broadcast timer\<close>

text \<open>
  \<^verbatim>\<open>try { body } catch (error) { handler }\<close> on a state \<open>'s\<close>: the handler runs on the
  state that the failing body left.
\<close>

definition try_catch ::
  "('s \<Rightarrow> (error + unit) \<times> 's) \<Rightarrow> (error \<Rightarrow> 's \<Rightarrow> (error + unit) \<times> 's) \<Rightarrow> 's
     \<Rightarrow> (error + unit) \<times> 's" where
  "try_catch body handler s =
     (case body s of (Inl e, s1) \<Rightarrow> handler e s1 | (Inr u, s1) \<Rightarrow> (Inr u, s1))"

text \<open>
  The callback that \<^verbatim>\<open>setupWebSockets\<close> gives to \<^verbatim>\<open>setInterval\<close>. The state is
  the world and the socket server \<open>'io\<close>; \<open>getMetrics\<close> is the method
  \<^verbatim>\<open>analyticsModule.getRealTimeMetrics\<close> and \<open>emit\<close> the server's \<^verbatim>\<open>io.emit\<close>,
  either of which may throw.
\<close>

definition broadcastTick ::
  "(world \<Rightarrow> (error + RealTimeMetrics) \<times> world)
     \<Rightarrow> (string \<Rightarrow> RealTimeMetrics \<Rightarrow> 'io \<Rightarrow> (error + unit) \<times> 'io)
     \<Rightarrow> world \<times> 'io \<Rightarrow> (error + unit) \<times> world \<times> 'io" where
  "broadcastTick getMetrics emit =
     try_catch
       (\<lambda>(w, io).
          case getMetrics w of
            (Inl e, w1) \<Rightarrow> (Inl e, w1, io)
          | (Inr realTimeMetrics, w1) \<Rightarrow>
              (case emit ''real-time-metrics'' realTimeMetrics io of
                 (Inl e, io1) \<Rightarrow> (Inl e, w1, io1)
               | (Inr u, io1) \<Rightarrow> (Inr (), w1, io1)))
       (\<lambda>error (w, io).
          (Inr (), console_error ''Error broadcasting real-time metrics:'' error w, io))"

text \<open>
  \<^verbatim>\<open>setInterval(callback, 5000)\<close> over \<open>n\<close> periods: the callback runs once per period
  for as long as the process lives; a callback whose promise rejects is an unhandled
  rejection, which ends the process. The result is the number of callbacks that ran to
  completion, or the error that ended the process.
\<close>

fun setInterval :: "('s \<Rightarrow> (error + unit) \<times> 's) \<Rightarrow> nat \<Rightarrow> 's \<Rightarrow> (error + nat) \<times> 's" where
  "setInterval callback 0 s = (Inr 0, s)"
| "setInterval callback (Suc n) s =
     (case callback s of
        (Inl e, s1) \<Rightarrow> (Inl e, s1)
      | (Inr u, s1) \<Rightarrow>
          (case setInterval callback n s1 of
             (Inl e, s2) \<Rightarrow> (Inl e, s2)
           | (Inr k, s2) \<Rightarrow> (Inr (Suc k), s2)))"

subsection \<open>Notions used in the statements\<close>

definition allFacets :: "facet list" where
  "allFacets = [Revenue, Operations, Customers, Inventory, Performance, Trends]"

text \<open>
  The error of the first generator that rejects when the six are run in the order of the
  object literal from the random state \<open>g0\<close>; \<open>None\<close> when all six resolve.
\<close>

definition firstFailure :: "generators \<Rightarrow> string \<Rightarrow> rng \<Rightarrow> error option" where
  "firstFailure G timeRange g0 =
     (case genRevenue G timeRange g0 of (Inl e, g1) \<Rightarrow> Some e | (Inr v1, g1) \<Rightarrow>
      case genOperations G timeRange g1 of (Inl e, g2) \<Rightarrow> Some e | (Inr v2, g2) \<Rightarrow>
      case genCustomers G timeRange g2 of (Inl e, g3) \<Rightarrow> Some e | (Inr v3, g3) \<Rightarrow>
      case genInventory G timeRange g3 of (Inl e, g4) \<Rightarrow> Some e | (Inr v4, g4) \<Rightarrow>
      case genPerformance G timeRange g4 of (Inl e, g5) \<Rightarrow> Some e | (Inr v5, g5) \<Rightarrow>
      case genTrends G timeRange g5 of (Inl e, g6) \<Rightarrow> Some e | (Inr v6, g6) \<Rightarrow> None)"

text \<open>
  A miss, in the words of the specification: no entry for the bucket, or an entry whose age
  at the next reading of the clock is the expiry time or more.
\<close>

definition isMiss :: "AnalyticsModule \<Rightarrow> world \<Rightarrow> string \<Rightarrow> bool" where
  "isMiss m w b =
     (case Map_get (dataCache m) (''analytics_'' @ b) of
        None \<Rightarrow> True
      | Some c \<Rightarrow> cacheExpiry \<le> clock w (reads w) - timestamp c)"





text \<open>
  A sequence of \<open>generateReport\<close> calls, one per request (name, type, time range, author),
  each on the state that the call before left; the result lists the reports that the calls
  returned, in the order of the calls.
\<close>

fun generateReports ::
  "generators \<Rightarrow> (string \<times> ReportType \<times> string \<times> string) list \<Rightarrow> AnalyticsModule \<Rightarrow> world
     \<Rightarrow> Report list \<times> world \<times> AnalyticsModule" where
  "generateReports G [] m w = ([], w, m)"
| "generateReports G ((name, type, timeRange, generatedBy) # qs) m w =
     (case generateReport G name type timeRange generatedBy m w of
        (Inl e, w1, m1) \<Rightarrow> generateReports G qs m1 w1
      | (Inr r, w1, m1) \<Rightarrow>
          (case generateReports G qs m1 w1 of (rs, w2, m2) \<Rightarrow> (r # rs, w2, m2)))"

text \<open>
  The Gregorian calendar, by counting: a year is a leap year when it is divisible by 4 and
  not by 100, or by 400; \<open>epochDay y m d\<close> is the number of days from 1970-01-01 to the
  day \<open>d\<close> of month \<open>m\<close> of year \<open>y\<close>.
\<close>

definition isLeapYear :: "int \<Rightarrow> bool" where
  "isLeapYear y \<longleftrightarrow> 4 dvd y \<and> (\<not> 100 dvd y \<or> 400 dvd y)"

definition monthLengths :: "int \<Rightarrow> int list" where
  "monthLengths y =
     [31, if isLeapYear y then 29 else 28, 31, 30, 31, 30, 31, 31, 30, 31, 30, 31]"

fun daysFromYear0 :: "nat \<Rightarrow> int" where
  "daysFromYear0 0 = 0"
| "daysFromYear0 (Suc y) = daysFromYear0 y + (if isLeapYear (int y) then 366 else 365)"

definition epochDay :: "nat \<Rightarrow> nat \<Rightarrow> nat \<Rightarrow> int" where
  "epochDay y m d =
     daysFromYear0 y - daysFromYear0 1970
       + sum_list (take (m - 1) (monthLengths (int y))) + int d - 1"

definition validDate :: "nat \<Rightarrow> nat \<Rightarrow> nat \<Rightarrow> bool" where
  "validDate y m d \<longleftrightarrow>
     1 \<le> m \<and> m \<le> 12 \<and> 1 \<le> d \<and> int d \<le> monthLengths (int y) ! (m - 1)"

text \<open>The number that a string of decimal digits denotes.\<close>

definition digit_value :: "char \<Rightarrow> nat" where
  "digit_value c = of_char c - 48"

definition decimal_value :: "string \<Rightarrow> nat" where
  "decimal_value s = foldl (\<lambda>n c. 10 * n + digit_value c) 0 s"

subsection \<open>Example states\<close>

text \<open>A clock that starts at 2025-01-01T00:00:00.000Z and advances a second per reading.\<close>

definition demo_clock :: "nat \<Rightarrow> int" where
  "demo_clock n = 1735689600000 + 1000 * int n"

definition demo_random :: "nat \<Rightarrow> real" where
  "demo_random n = 9 / 10"

definition demo_toString36 :: "real \<Rightarrow> string" where
  "demo_toString36 r = ''0.wdel3xq9k2m''"

definition demo_world :: world where
  "demo_world =
     \<lparr> clock = demo_clock, reads = 0, rnd = \<lparr> random = demo_random, draws = 0 \<rparr>,
       toString36 = demo_toString36, console = [], calls = [] \<rparr>"

definition demo_started :: world where
  "demo_started = fst (new_AnalyticsModule demo_world)"

definition demo_module :: AnalyticsModule where
  "demo_module = snd (new_AnalyticsModule demo_world)"

definition failingInventory :: "string \<Rightarrow> rng \<Rightarrow> (error + InventoryAnalytics) \<times> rng" where
  "failingInventory timeRange g = (Inl (Error ''inventory unavailable''), g)"

definition demo_failing :: generators where
  "demo_failing = sourceGenerators\<lparr>genInventory := failingInventory\<rparr>"

definition failingMetrics :: "world \<Rightarrow> (error + RealTimeMetrics) \<times> world" where
  "failingMetrics w = (Inl (Error ''metrics unavailable''), w)"

definition recordingEmit ::
  "string \<Rightarrow> RealTimeMetrics \<Rightarrow> (string \<times> RealTimeMetrics) list
     \<Rightarrow> (error + unit) \<times> (string \<times> RealTimeMetrics) list" where
  "recordingEmit event payload io = (Inr (), io @ [(event, payload)])"

definition failingEmit ::
  "string \<Rightarrow> RealTimeMetrics \<Rightarrow> (string \<times> RealTimeMetrics) list
     \<Rightarrow> (error + unit) \<times> (string \<times> RealTimeMetrics) list" where
  "failingEmit event payload io = (Inl (Error ''socket closed''), io)"

text \<open>
  A world in which the clock stands at 2025-01-01T00:00:00.000Z and the random suffix of
  the third report generated after a start is that of the first.
\<close>

definition collide_clock :: "nat \<Rightarrow> int" where
  "collide_clock n = 1735689600000"

definition collide_random :: "nat \<Rightarrow> real" where
  "collide_random n = (if n = 98 then 1 / 2 else 9 / 10)"

definition collide_toString36 :: "real \<Rightarrow> string" where
  "collide_toString36 r = (if r = 1 / 2 then ''0.bbbbbbbbb'' else ''0.aaaaaaaaa'')"

definition collide_world :: world where
  "collide_world =
     \<lparr> clock = collide_clock, reads = 0, rnd = \<lparr> random = collide_random, draws = 0 \<rparr>,
       toString36 = collide_toString36, console = [], calls = [] \<rparr>"

definition collide_started :: world where
  "collide_started = fst (new_AnalyticsModule collide_world)"

definition collide_module :: AnalyticsModule where
  "collide_module = snd (new_AnalyticsModule collide_world)"

definition collide_two :: "Report list \<times> world \<times> AnalyticsModule" where
  "collide_two =
     generateReports sourceGenerators
       [(''A'', Monthly, ''month'', ''alice''), (''C'', Monthly, ''month'', ''alice'')]
       collide_module collide_started"

definition collide_three :: "Report list \<times> world \<times> AnalyticsModule" where
  "collide_three =
     generateReports sourceGenerators
       [(''A'', Monthly, ''month'', ''alice''), (''C'', Monthly, ''month'', ''alice''),
        (''B'', Monthly, ''month'', ''alice'')]
       collide_module collide_started"

text \<open>A world in which the clock stands at the first millisecond of the year 10000.\<close>

definition far_clock :: "nat \<Rightarrow> int" where
  "far_clock n = 253402300800000"

definition far_world :: world where
  "far_world =
     \<lparr> clock = far_clock, reads = 0, rnd = \<lparr> random = demo_random, draws = 0 \<rparr>,
       toString36 = demo_toString36, console = [], calls = [] \<rparr>"

definition far_report :: "(error + Report) \<times> world \<times> AnalyticsModule" where
  "far_report =
     generateReport sourceGenerators ''R'' Monthly ''month'' ''alice''
       (snd (new_AnalyticsModule far_world)) (fst (new_AnalyticsModule far_world))"

section \<open>Properties\<close>

subsection \<open>The example states\<close>

lemma demo_started_eq:
  "demo_started =
     \<lparr> clock = demo_clock, reads = 2, rnd = \<lparr> random = demo_random, draws = 0 \<rparr>,
       toString36 = demo_toString36, console = [], calls = [] \<rparr>"
  by (simp add: demo_started_def demo_world_def new_AnalyticsModule_def
      initializeSampleDashboards_def Date_now_def Let_def)

lemma demo_module_eq:
  "demo_module =
     \<lparr> reports = [],
       dashboards = [(''dashboard-001'', sampleDashboard 1735689600000 1735689601000)],
       dataCache = [] \<rparr>"
  by (simp add: demo_module_def demo_world_def new_AnalyticsModule_def
      initializeSampleDashboards_def Date_now_def Let_def demo_clock_def sampleDashboard_def)

subsection \<open>Map\<close>

lemma Map_get_Map_set:
  "Map_get (Map_set k v kvs) k' = (if k' = k then Some v else Map_get kvs k')"
  by (induction kvs) (auto simp: Map_get_def)

lemma Map_set_keys_present:
  "Map_get kvs k = Some v0 \<Longrightarrow> map fst (Map_set k v kvs) = map fst kvs"
  by (induction kvs) (auto simp: Map_get_def split: if_splits)

lemma Map_set_absent:
  "Map_get kvs k = None \<Longrightarrow> Map_set k v kvs = kvs @ [(k, v)]"
  by (induction kvs) (auto simp: Map_get_def split: if_splits)

subsection \<open>The sample dashboard\<close>

text \<open>
  Claim C10. A freshly constructed module holds one dashboard: \<open>getDashboard\<close> of
  \<^verbatim>\<open>'dashboard-001'\<close> returns the sample dashboard, stamped with the two readings of the
  clock that the constructor makes, and \<open>getAllDashboards\<close> returns the list of this one
  dashboard. Its name is \<^verbatim>\<open>'Operations Overview'\<close>, it has three widgets and is public.
\<close>

theorem fresh_module_sample_dashboard:
  "getDashboard ''dashboard-001'' (snd (new_AnalyticsModule w))
     = Some (sampleDashboard (clock w (reads w)) (clock w (Suc (reads w))))
   \<and> getAllDashboards (snd (new_AnalyticsModule w))
     = [sampleDashboard (clock w (reads w)) (clock w (Suc (reads w)))]
   \<and> d_id (sampleDashboard c u) = ''dashboard-001''
   \<and> d_name (sampleDashboard c u) = ''Operations Overview''
   \<and> length (d_widgets (sampleDashboard c u)) = 3
   \<and> d_isPublic (sampleDashboard c u)"
  by (simp add: new_AnalyticsModule_def initializeSampleDashboards_def Date_now_def
      getDashboard_def getAllDashboards_def Map_get_def Map_values_def sampleDashboard_def)

subsection \<open>Updating a dashboard\<close>

lemma spread_only_name:
  "spread d (only_name X) now = d\<lparr>d_name := X, d_updatedAt := now\<rparr>"
  by (simp add: spread_def only_name_def orElse_def)

text \<open>
  Claim C6. For a stored dashboard, \<open>updateDashboard\<close> with the update \<^verbatim>\<open>{ name: X }\<close>
  replaces the record under the id by the old record with \<open>name\<close> set to \<open>X\<close> and
  \<open>updatedAt\<close> set to the reading of the clock, every other field as before; the other
  dashboards, the order of the keys, the reports and the cache are unchanged. For an id that
  is not stored, the call changes neither the module nor the world.
\<close>

theorem updateDashboard_name_only:
  "(\<forall>d. Map_get (dashboards m) ident = Some d \<longrightarrow>
      (case updateDashboard ident (only_name X) m w of (w', m') \<Rightarrow>
         Map_get (dashboards m') ident = Some (d\<lparr>d_name := X, d_updatedAt := clock w (reads w)\<rparr>)
         \<and> (\<forall>k. k \<noteq> ident \<longrightarrow> Map_get (dashboards m') k = Map_get (dashboards m) k)
         \<and> map fst (dashboards m') = map fst (dashboards m)
         \<and> reports m' = reports m \<and> dataCache m' = dataCache m))
   \<and> (Map_get (dashboards m) ident = None \<longrightarrow>
        updateDashboard ident (only_name X) m w = (w, m))"
  by (auto simp: updateDashboard_def Date_now_def Map_get_Map_set spread_only_name
      Map_set_keys_present)

text \<open>An instance: renaming the sample dashboard, and an id that is not stored.\<close>

theorem updateDashboard_name_only_witness:
  "Map_get (dashboards demo_module) ''dashboard-001''
     = Some (sampleDashboard 1735689600000 1735689601000)
   \<and> (case updateDashboard ''dashboard-001'' (only_name ''Shop floor'') demo_module demo_started of
        (w', m') \<Rightarrow>
          Map_get (dashboards m') ''dashboard-001''
            = Some ((sampleDashboard 1735689600000 1735689601000)
                      \<lparr>d_name := ''Shop floor'', d_updatedAt := 1735689602000\<rparr>)
          \<and> reports m' = reports demo_module \<and> dataCache m' = dataCache demo_module)
   \<and> Map_get (dashboards demo_module) ''dashboard-002'' = None
   \<and> updateDashboard ''dashboard-002'' (only_name ''Shop floor'') demo_module demo_started
       = (demo_started, demo_module)"
proof -
  have h1: "Map_get (dashboards demo_module) ''dashboard-001''
              = Some (sampleDashboard 1735689600000 1735689601000)"
    by (simp add: demo_module_eq Map_get_def)
  have h2: "Map_get (dashboards demo_module) ''dashboard-002'' = None"
    by (simp add: demo_module_eq Map_get_def)
  have c: "clock demo_started (reads demo_started) = 1735689602000"
    by (simp add: demo_started_eq demo_clock_def)
  from updateDashboard_name_only[where m = demo_module and ident = "''dashboard-001''"
      and X = "''Shop floor''" and w = demo_started]
    updateDashboard_name_only[where m = demo_module and ident = "''dashboard-002''"
      and X = "''Shop floor''" and w = demo_started]
    h1 h2 c
  show ?thesis by (auto split: prod.splits)
qed

subsection \<open>The cache\<close>

lemma cacheHit_fresh:
  "clock w (reads w) - timestamp c < cacheExpiry \<Longrightarrow>
   cacheHit (Some c) w = (Some (data c), w\<lparr>reads := Suc (reads w)\<rparr>)"
  by (simp add: cacheHit_def Date_now_def)

lemma generateAnalyticsData_hit:
  "Map_get (dataCache m) (''analytics_'' @ b) = Some c \<Longrightarrow>
   clock w (reads w) - timestamp c < cacheExpiry \<Longrightarrow>
   generateAnalyticsData G b m w = (Inr (data c), w\<lparr>reads := Suc (reads w)\<rparr>, m)"
  by (simp add: generateAnalyticsData_def cacheHit_fresh)

lemma cacheHit_cases:
  "cacheHit cached w = (r, w0) \<Longrightarrow>
   rnd w0 = rnd w \<and> calls w0 = calls w \<and> clock w0 = clock w \<and> console w0 = console w
   \<and> toString36 w0 = toString36 w
   \<and> reads w0 = (if cached = None then reads w else Suc (reads w))
   \<and> (case r of None \<Rightarrow> (case cached of None \<Rightarrow> True
                           | Some c \<Rightarrow> cacheExpiry \<le> clock w (reads w) - timestamp c)
        | Some d \<Rightarrow> (\<exists>c. cached = Some c \<and> d = data c
                           \<and> clock w (reads w) - timestamp c < cacheExpiry))"
  by (auto simp: cacheHit_def Date_now_def split: option.splits if_splits)

lemma invoke_frame:
  "invoke f gen tr w = (r, w') \<Longrightarrow>
   calls w' = calls w @ [f] \<and> reads w' = reads w \<and> clock w' = clock w
   \<and> console w' = console w \<and> toString36 w' = toString36 w
   \<and> gen tr (rnd w) = (r, rnd w')"
  by (auto simp: invoke_def split: prod.splits)

lemma awaitFacets_frame:
  "awaitFacets G tr w = (r, w') \<Longrightarrow>
   reads w' = reads w \<and> clock w' = clock w \<and> console w' = console w
   \<and> toString36 w' = toString36 w"
  unfolding awaitFacets_def
  by (auto split: prod.splits sum.splits dest!: invoke_frame)

lemma awaitFacets_success_calls:
  "awaitFacets G tr w = (Inr v, w') \<Longrightarrow> calls w' = calls w @ allFacets"
  unfolding awaitFacets_def allFacets_def
  by (auto split: prod.splits sum.splits dest!: invoke_frame)

lemma awaitFacets_count:
  "awaitFacets G tr w = (r, w') \<Longrightarrow> count_list (calls w') f \<le> count_list (calls w) f + 1"
  unfolding awaitFacets_def
  by (cases f; auto split: prod.splits sum.splits dest!: invoke_frame)

lemma awaitFacets_firstFailure:
  "(firstFailure G tr (rnd w) = Some e \<longrightarrow> fst (awaitFacets G tr w) = Inl e) \<and>
   (firstFailure G tr (rnd w) = None \<longrightarrow> (\<exists>v. fst (awaitFacets G tr w) = Inr v))"
  unfolding awaitFacets_def firstFailure_def
  by (auto simp: invoke_def split: prod.splits sum.splits)

lemma generateAnalyticsData_fail_frame:
  "generateAnalyticsData G b m w = (Inl e, w', m') \<Longrightarrow> m' = m"
  by (auto simp: generateAnalyticsData_def Let_def split: prod.splits option.splits sum.splits)

lemma generateAnalyticsData_count:
  assumes "generateAnalyticsData G b m w = (r, w', m')"
  shows "count_list (calls w') f \<le> count_list (calls w) f + 1"
proof -
  obtain h w0 where h: "cacheHit (Map_get (dataCache m) (''analytics_'' @ b)) w = (h, w0)"
    by (cases "cacheHit (Map_get (dataCache m) (''analytics_'' @ b)) w")
  then have c0: "calls w0 = calls w" by (auto dest: cacheHit_cases)
  show ?thesis
  proof (cases h)
    case (Some d)
    with assms h c0 show ?thesis by (simp add: generateAnalyticsData_def)
  next
    case None
    obtain r6 w6 where a: "awaitFacets G b w0 = (r6, w6)" by (cases "awaitFacets G b w0")
    from awaitFacets_count[OF a] c0
    have "count_list (calls w6) f \<le> count_list (calls w) f + 1" by simp
    moreover from assms h None a have "calls w' = calls w6"
      by (auto simp: generateAnalyticsData_def Date_now_def Let_def split: sum.splits prod.splits)
    ultimately show ?thesis by simp
  qed
qed

lemma generateAnalyticsData_result_cached:
  "generateAnalyticsData G b m w = (Inr d, w', m') \<Longrightarrow>
   \<exists>c. Map_get (dataCache m') (''analytics_'' @ b) = Some c \<and> data c = d"
  by (auto simp: generateAnalyticsData_def Let_def Map_get_Map_set
           split: prod.splits option.splits sum.splits dest!: cacheHit_cases)

lemma generateAnalyticsData_failure:
  assumes miss: "isMiss m w b" and fail: "firstFailure G b (rnd w) = Some e"
  shows "\<exists>w'. generateAnalyticsData G b m w = (Inl e, w', m)"
proof -
  obtain h w0 where h: "cacheHit (Map_get (dataCache m) (''analytics_'' @ b)) w = (h, w0)"
    by (cases "cacheHit (Map_get (dataCache m) (''analytics_'' @ b)) w")
  from cacheHit_cases[OF h] miss have hn: "h = None" and r0: "rnd w0 = rnd w"
    by (auto simp: isMiss_def split: option.splits)
  from fail r0 awaitFacets_firstFailure[of G b w0 e]
  have "fst (awaitFacets G b w0) = Inl e" by simp
  then obtain w6 where "awaitFacets G b w0 = (Inl e, w6)"
    by (cases "awaitFacets G b w0") auto
  with h hn show ?thesis by (simp add: generateAnalyticsData_def)
qed

lemma generateAnalyticsData_success:
  assumes miss: "isMiss m w b" and ok: "firstFailure G b (rnd w) = None"
  shows "\<exists>d w' k. generateAnalyticsData G b m w =
            (Inr d, w', m\<lparr>dataCache := Map_set (''analytics_'' @ b)
                           \<lparr> data = d, timestamp = clock w k \<rparr> (dataCache m)\<rparr>)
          \<and> calls w' = calls w @ allFacets \<and> reads w' = Suc k
          \<and> k = (if Map_get (dataCache m) (''analytics_'' @ b) = None
                  then Suc (reads w) else Suc (Suc (reads w)))
          \<and> generatedAt d = clock w (k - 1) \<and> clock w' = clock w
          \<and> toString36 w' = toString36 w \<and> console w' = console w"
proof -
  obtain h w0 where h: "cacheHit (Map_get (dataCache m) (''analytics_'' @ b)) w = (h, w0)"
    by (cases "cacheHit (Map_get (dataCache m) (''analytics_'' @ b)) w")
  from cacheHit_cases[OF h] miss have hn: "h = None" and r0: "rnd w0 = rnd w"
    and c0: "calls w0 = calls w" and k0: "clock w0 = clock w"
    and t0: "toString36 w0 = toString36 w" and o0: "console w0 = console w"
    and rd: "reads w0 = (if Map_get (dataCache m) (''analytics_'' @ b) = None
                         then reads w else Suc (reads w))"
    by (auto simp: isMiss_def split: option.splits if_splits)
  from ok r0 awaitFacets_firstFailure[of G b w0]
  obtain v where "fst (awaitFacets G b w0) = Inr v" by auto
  then obtain w6 where a: "awaitFacets G b w0 = (Inr v, w6)"
    by (cases "awaitFacets G b w0") auto
  from awaitFacets_frame[OF a] awaitFacets_success_calls[OF a] c0 k0 t0 o0
  have f: "reads w6 = reads w0" "clock w6 = clock w" "calls w6 = calls w @ allFacets"
    "toString36 w6 = toString36 w" "console w6 = console w"
    by simp_all
  obtain rv op cu iv pf tr where v: "v = (rv, op, cu, iv, pf, tr)" by (cases v) auto
  show ?thesis
    using h hn a v f rd
    by (simp add: generateAnalyticsData_def Date_now_def Let_def)
qed

lemma source_never_fails: "firstFailure sourceGenerators b g = None"
  by (simp add: firstFailure_def sourceGenerators_def generateRevenueAnalytics_def
        generateOperationsAnalytics_def generateCustomerAnalytics_def
        generateInventoryAnalytics_def generatePerformanceAnalytics_def
        generateTrendAnalytics_def split: prod.splits)

lemma generateAnalyticsData_source_total:
  "\<not> isl (fst (generateAnalyticsData sourceGenerators b m w)) \<and>
   Map_get (dataCache (snd (snd (generateAnalyticsData sourceGenerators b m w))))
     (''analytics_'' @ b) \<noteq> None"
proof (cases "isMiss m w b")
  case True
  from generateAnalyticsData_success[OF True source_never_fails]
  show ?thesis by (auto simp: Map_get_Map_set)
next
  case False
  then obtain c where "Map_get (dataCache m) (''analytics_'' @ b) = Some c"
    "clock w (reads w) - timestamp c < cacheExpiry"
    by (auto simp: isMiss_def split: option.splits)
  from generateAnalyticsData_hit[OF this] this(1) show ?thesis by simp
qed

lemma demo_first_call:
  "\<exists>d w1. generateAnalyticsData sourceGenerators ''month'' demo_module demo_started
            = (Inr d, w1, demo_module\<lparr>dataCache := [(''analytics_month'',
                 \<lparr> data = d, timestamp = 1735689603000 \<rparr>)]\<rparr>)
         \<and> reads w1 = 4 \<and> clock w1 = demo_clock \<and> toString36 w1 = demo_toString36
         \<and> calls w1 = allFacets"
proof -
  have miss: "isMiss demo_module demo_started ''month''"
    by (simp add: isMiss_def demo_module_eq Map_get_def)
  from generateAnalyticsData_success[OF miss source_never_fails]
  show ?thesis
    by (auto simp: demo_module_eq demo_started_eq Map_get_def demo_clock_def)
qed

text \<open>
  Claim C1. Let a first call of \<open>generateAnalyticsData\<close> for a bucket end in the world
  \<open>w1\<close> and the module \<open>m1\<close>, and let the entry \<open>c\<close> that the cache then holds for the
  bucket be younger than the expiry time at the next reading of the clock. Then a second
  call for the bucket returns the bundle of \<open>c\<close> and changes neither the module, nor the
  trace of generator calls, nor the random state; a bundle that the first call returned is
  this bundle; and over both calls each generator is invoked at most once.
\<close>

theorem second_call_within_ttl_is_hit:
  assumes "generateAnalyticsData G b m w = (r1, w1, m1)"
    and "Map_get (dataCache m1) (''analytics_'' @ b) = Some c"
    and "clock w1 (reads w1) - timestamp c < cacheExpiry"
  shows "case generateAnalyticsData G b m1 w1 of (r2, w2, m2) \<Rightarrow>
           r2 = Inr (data c) \<and> m2 = m1 \<and> calls w2 = calls w1 \<and> rnd w2 = rnd w1
           \<and> (\<forall>d. r1 = Inr d \<longrightarrow> r2 = r1)
           \<and> (\<forall>f. count_list (calls w2) f \<le> count_list (calls w) f + 1)"
proof -
  have hit: "generateAnalyticsData G b m1 w1 = (Inr (data c), w1\<lparr>reads := Suc (reads w1)\<rparr>, m1)"
    using assms(2,3) by (rule generateAnalyticsData_hit)
  have same: "r1 = Inr (data c)" if "r1 = Inr d" for d
    using generateAnalyticsData_result_cached[of G b m w d w1 m1] assms(1,2) that by auto
  have "count_list (calls w1) f \<le> count_list (calls w) f + 1" for f
    using assms(1) by (rule generateAnalyticsData_count)
  with hit same show ?thesis by simp
qed

text \<open>An instance: two calls for \<^verbatim>\<open>'month'\<close> on the freshly started module, seconds apart.\<close>

theorem second_call_within_ttl_is_hit_witness:
  "\<exists>r1 w1 m1 c.
     generateAnalyticsData sourceGenerators ''month'' demo_module demo_started = (r1, w1, m1)
     \<and> Map_get (dataCache m1) (''analytics_'' @ ''month'') = Some c
     \<and> clock w1 (reads w1) - timestamp c < cacheExpiry
     \<and> (case generateAnalyticsData sourceGenerators ''month'' m1 w1 of
          (r2, w2, m2) \<Rightarrow> r2 = r1 \<and> r2 = Inr (data c) \<and> m2 = m1 \<and> calls w2 = allFacets)"
proof -
  from demo_first_call obtain d w1 where
    f: "generateAnalyticsData sourceGenerators ''month'' demo_module demo_started
          = (Inr d, w1, demo_module\<lparr>dataCache := [(''analytics_month'',
               \<lparr> data = d, timestamp = 1735689603000 \<rparr>)]\<rparr>)"
    and w1: "reads w1 = 4" "clock w1 = demo_clock" "calls w1 = allFacets"
    by blast
  define m1 where "m1 = demo_module\<lparr>dataCache := [(''analytics_month'',
               \<lparr> data = d, timestamp = 1735689603000 \<rparr>)]\<rparr>"
  define c where "c = \<lparr> data = d, timestamp = 1735689603000 \<rparr>"
  have h1: "generateAnalyticsData sourceGenerators ''month'' demo_module demo_started
              = (Inr d, w1, m1)"
    using f by (simp add: m1_def)
  have h2: "Map_get (dataCache m1) (''analytics_'' @ ''month'') = Some c"
    by (simp add: m1_def c_def Map_get_def)
  have h3: "clock w1 (reads w1) - timestamp c < cacheExpiry"
    by (simp add: w1 c_def demo_clock_def cacheExpiry_def)
  from second_call_within_ttl_is_hit[OF h1 h2 h3] w1(3)
  have h4: "case generateAnalyticsData sourceGenerators ''month'' m1 w1 of
          (r2, w2, m2) \<Rightarrow> r2 = Inr d \<and> r2 = Inr (data c) \<and> m2 = m1 \<and> calls w2 = allFacets"
    by (auto split: prod.splits)
  show ?thesis
  proof (intro exI conjI)
    show "generateAnalyticsData sourceGenerators ''month'' demo_module demo_started
            = (Inr d, w1, m1)" by (rule h1)
    show "Map_get (dataCache m1) (''analytics_'' @ ''month'') = Some c" by (rule h2)
    show "clock w1 (reads w1) - timestamp c < cacheExpiry" by (rule h3)
    show "case generateAnalyticsData sourceGenerators ''month'' m1 w1 of
            (r2, w2, m2) \<Rightarrow> r2 = Inr d \<and> r2 = Inr (data c) \<and> m2 = m1 \<and> calls w2 = allFacets"
      by (rule h4)
  qed
qed

text \<open>
  Claim C2. With the generators of the source, a call of \<open>generateAnalyticsData\<close> invokes
  the six generators exactly when the lookup is a miss, that is, when the cache has no
  entry for the bucket or the entry's age at the reading of the clock is at least the
  expiry time of five minutes (an age equal to it included). On a miss the call returns a
  bundle and stores it under the bucket's key with, as time stamp, the last reading of the
  clock that the call makes (the second reading after the lookup, the first being the
  bundle's \<open>generatedAt\<close>); otherwise it invokes no generator, leaves the module as it is
  and returns the bundle of the entry.
\<close>

theorem miss_exactly_when_absent_or_expired:
  "cacheExpiry = 300000 \<and>
   (case generateAnalyticsData sourceGenerators b m w of (r, w', m') \<Rightarrow>
      if isMiss m w b
      then calls w' = calls w @ allFacets
         \<and> (\<exists>d k. r = Inr d \<and> reads w' = Suc k
               \<and> k = (if Map_get (dataCache m) (''analytics_'' @ b) = None
                       then Suc (reads w) else Suc (Suc (reads w)))
               \<and> m' = m\<lparr>dataCache := Map_set (''analytics_'' @ b)
                                      \<lparr> data = d, timestamp = clock w k \<rparr> (dataCache m)\<rparr>
               \<and> Map_get (dataCache m') (''analytics_'' @ b)
                   = Some \<lparr> data = d, timestamp = clock w k \<rparr>)
      else calls w' = calls w \<and> m' = m
         \<and> (\<exists>c. Map_get (dataCache m) (''analytics_'' @ b) = Some c \<and> r = Inr (data c)))"
proof (cases "isMiss m w b")
  case True
  from generateAnalyticsData_success[OF True source_never_fails]
  show ?thesis using True by (auto simp: Map_get_Map_set cacheExpiry_def)
next
  case False
  then obtain c where "Map_get (dataCache m) (''analytics_'' @ b) = Some c"
    "clock w (reads w) - timestamp c < cacheExpiry"
    by (auto simp: isMiss_def split: option.splits)
  from generateAnalyticsData_hit[OF this] this(1) False show ?thesis
    by (simp add: cacheExpiry_def)
qed

text \<open>
  An instance: after a first call, an entry aged exactly five minutes is a miss and is
  refreshed; a second younger, it is a hit.
\<close>

theorem miss_exactly_when_absent_or_expired_witness:
  "\<exists>d w1 m1.
     generateAnalyticsData sourceGenerators ''month'' demo_module demo_started = (Inr d, w1, m1)
     \<and> Map_get (dataCache m1) ''analytics_month'' = Some \<lparr> data = d, timestamp = 1735689603000 \<rparr>
     \<and> clock w1 303 - 1735689603000 = cacheExpiry
     \<and> isMiss m1 (w1\<lparr>reads := 303\<rparr>) ''month''
     \<and> (case generateAnalyticsData sourceGenerators ''month'' m1 (w1\<lparr>reads := 303\<rparr>) of
          (r, w', m') \<Rightarrow>
            calls w' = calls w1 @ allFacets
            \<and> (\<exists>d'. r = Inr d' \<and> Map_get (dataCache m') ''analytics_month''
                                   = Some \<lparr> data = d', timestamp = 1735689905000 \<rparr>))
     \<and> \<not> isMiss m1 (w1\<lparr>reads := 302\<rparr>) ''month''
     \<and> (case generateAnalyticsData sourceGenerators ''month'' m1 (w1\<lparr>reads := 302\<rparr>) of
          (r, w', m') \<Rightarrow> calls w' = calls w1 \<and> m' = m1 \<and> r = Inr d)"
proof -
  from demo_first_call obtain d w1 where
    f: "generateAnalyticsData sourceGenerators ''month'' demo_module demo_started
          = (Inr d, w1, demo_module\<lparr>dataCache := [(''analytics_month'',
               \<lparr> data = d, timestamp = 1735689603000 \<rparr>)]\<rparr>)"
    and w1: "clock w1 = demo_clock"
    by blast
  define m1 where "m1 = demo_module\<lparr>dataCache := [(''analytics_month'',
               \<lparr> data = d, timestamp = 1735689603000 \<rparr>)]\<rparr>"
  have h1: "generateAnalyticsData sourceGenerators ''month'' demo_module demo_started
              = (Inr d, w1, m1)"
    using f by (simp add: m1_def)
  have h2: "Map_get (dataCache m1) ''analytics_month''
              = Some \<lparr> data = d, timestamp = 1735689603000 \<rparr>"
    by (simp add: m1_def Map_get_def)
  have h3: "clock w1 303 - 1735689603000 = cacheExpiry"
    by (simp add: w1 demo_clock_def cacheExpiry_def)
  have h4: "isMiss m1 (w1\<lparr>reads := 303\<rparr>) ''month''"
    using h2 h3 by (simp add: isMiss_def)
  have h5: "\<not> isMiss m1 (w1\<lparr>reads := 302\<rparr>) ''month''"
    using h2 by (simp add: isMiss_def w1 demo_clock_def cacheExpiry_def)
  from miss_exactly_when_absent_or_expired[where b = "''month''" and m = m1
      and w = "w1\<lparr>reads := 303\<rparr>"] h4 h2
  have c1: "case generateAnalyticsData sourceGenerators ''month'' m1 (w1\<lparr>reads := 303\<rparr>) of
          (r, w', m') \<Rightarrow>
            calls w' = calls w1 @ allFacets
            \<and> (\<exists>d'. r = Inr d' \<and> Map_get (dataCache m') ''analytics_month''
                                   = Some \<lparr> data = d', timestamp = 1735689905000 \<rparr>)"
    by (auto simp: w1 demo_clock_def split: prod.splits)
  from miss_exactly_when_absent_or_expired[where b = "''month''" and m = m1
      and w = "w1\<lparr>reads := 302\<rparr>"] h5 h2
  have c2: "case generateAnalyticsData sourceGenerators ''month'' m1 (w1\<lparr>reads := 302\<rparr>) of
          (r, w', m') \<Rightarrow> calls w' = calls w1 \<and> m' = m1 \<and> r = Inr d"
    by (auto split: prod.splits)
  show ?thesis
  proof (intro exI conjI)
    show "generateAnalyticsData sourceGenerators ''month'' demo_module demo_started
            = (Inr d, w1, m1)" by (rule h1)
    show "Map_get (dataCache m1) ''analytics_month''
            = Some \<lparr> data = d, timestamp = 1735689603000 \<rparr>" by (rule h2)
    show "clock w1 303 - 1735689603000 = cacheExpiry" by (rule h3)
    show "isMiss m1 (w1\<lparr>reads := 303\<rparr>) ''month''" by (rule h4)
    show "case generateAnalyticsData sourceGenerators ''month'' m1 (w1\<lparr>reads := 303\<rparr>) of
          (r, w', m') \<Rightarrow>
            calls w' = calls w1 @ allFacets
            \<and> (\<exists>d'. r = Inr d' \<and> Map_get (dataCache m') ''analytics_month''
                                   = Some \<lparr> data = d', timestamp = 1735689905000 \<rparr>)"
      by (rule c1)
    show "\<not> isMiss m1 (w1\<lparr>reads := 302\<rparr>) ''month''" by (rule h5)
    show "case generateAnalyticsData sourceGenerators ''month'' m1 (w1\<lparr>reads := 302\<rparr>) of
          (r, w', m') \<Rightarrow> calls w' = calls w1 \<and> m' = m1 \<and> r = Inr d" by (rule c2)
  qed
qed

text \<open>
  Claim C3. On a miss, if one of the six generators rejects with an error \<open>e\<close> (the first
  to do so, since the later ones are then not run), \<open>generateAnalyticsData\<close> returns
  \<open>e\<close> to its caller and leaves the module, and with it the cache entry of the bucket, as it
  was before the call.
\<close>

theorem facet_failure_is_atomic:
  assumes "isMiss m w b" and "firstFailure G b (rnd w) = Some e"
  shows "case generateAnalyticsData G b m w of (r, w', m') \<Rightarrow> r = Inl e \<and> m' = m"
  using generateAnalyticsData_failure[OF assms] by auto

text \<open>An instance: the inventory generator rejects.\<close>

theorem facet_failure_is_atomic_witness:
  "isMiss demo_module demo_started ''week''
   \<and> firstFailure demo_failing ''week'' (rnd demo_started) = Some (Error ''inventory unavailable'')
   \<and> (case generateAnalyticsData demo_failing ''week'' demo_module demo_started of
        (r, w', m') \<Rightarrow> r = Inl (Error ''inventory unavailable'') \<and> m' = demo_module)"
proof -
  have h1: "isMiss demo_module demo_started ''week''"
    by (simp add: isMiss_def demo_module_eq Map_get_def)
  have h2: "firstFailure demo_failing ''week'' (rnd demo_started)
              = Some (Error ''inventory unavailable'')"
    by (simp add: firstFailure_def demo_failing_def sourceGenerators_def failingInventory_def
        generateRevenueAnalytics_def generateOperationsAnalytics_def
        generateCustomerAnalytics_def split: prod.splits)
  from facet_failure_is_atomic[OF h1 h2] h1 h2 show ?thesis by simp
qed

text \<open>
  Claim C8, as amended. There is no validation of the time range: for every string, one of
  the five buckets or not, \<open>generateAnalyticsData\<close> with the generators of the source
  returns a bundle, never an error, and the cache afterwards holds an entry under
  \<^verbatim>\<open>analytics_\<close> followed by the string; \<open>generateReport\<close> returns a report for it.
\<close>

theorem no_bucket_validation:
  "\<not> isl (fst (generateAnalyticsData sourceGenerators timeRange m w))
   \<and> Map_get (dataCache (snd (snd (generateAnalyticsData sourceGenerators timeRange m w))))
       (''analytics_'' @ timeRange) \<noteq> None
   \<and> \<not> isl (fst (generateReport sourceGenerators name type timeRange generatedBy m w))"
  using generateAnalyticsData_source_total[of timeRange m w]
  by (auto simp: generateReport_def Let_def split: prod.splits sum.splits)

text \<open>
  The claim as stated fails for the string \<^verbatim>\<open>'decade'\<close>: a bundle is computed and cached.
\<close>

theorem unknown_bucket_accepted_counterexample:
  "\<not> isl (fst (generateAnalyticsData sourceGenerators ''decade'' demo_module demo_started))
   \<and> Map_get (dataCache (snd (snd (generateAnalyticsData sourceGenerators ''decade''
                                     demo_module demo_started))))
       ''analytics_decade'' \<noteq> None"
  using generateAnalyticsData_source_total[of "''decade''" demo_module demo_started]
  by simp

subsection \<open>Listing reports\<close>









lemma generateReport_appends:
  assumes "generateReport G name type timeRange generatedBy m w = (Inr r, w', m')"
    and "Map_get (reports m) (r_id r) = None"
  shows "Map_values (reports m') = Map_values (reports m) @ [r]"
proof -
  obtain r1 w1 m1 where g: "generateAnalyticsData G timeRange m w = (r1, w1, m1)"
    by (cases "generateAnalyticsData G timeRange m w")
  have "reports m1 = reports m" using g
    by (auto simp: generateAnalyticsData_def Let_def split: prod.splits option.splits sum.splits)
  with assms g show ?thesis
    by (auto simp: generateReport_def Let_def Map_values_def Map_set_absent
        split: prod.splits sum.splits)
qed


subsection \<open>The calendar date of a time value\<close>














lemma DayFromYear_10000: "DayFromYear 10000 = 2932897"
  by (simp add: DayFromYear_def)



















subsection \<open>Export\<close>






subsection \<open>Alerts\<close>

text \<open>
  Claim C7, as amended. \<open>checkAlerts\<close> takes no inventory or equipment state and never
  fails. It draws two random numbers: the first, when above 0.7, gives the warning of
  medium severity that five items are running low on stock; the second, when above 0.8,
  gives the error of high severity that Lift 2 requires maintenance. It returns these
  alerts in this order, each stamped with a reading of the clock, and so the empty list
  exactly when neither draw is above its threshold.
\<close>

theorem checkAlerts_random_draws:
  "fst (checkAlerts w) =
     (if random (rnd w) (draws (rnd w)) > double_0_7
      then [\<lparr> a_type = Warning, a_message = ''5 items are running low on stock'',
              a_severity = Medium, a_timestamp = clock w (reads w) \<rparr>]
      else []) @
     (if random (rnd w) (Suc (draws (rnd w))) > double_0_8
      then [\<lparr> a_type = ErrorAlert, a_message = ''Lift 2 requires maintenance'',
              a_severity = High,
              a_timestamp = clock w (if random (rnd w) (draws (rnd w)) > double_0_7
                                     then Suc (reads w) else reads w) \<rparr>]
      else [])
   \<and> (fst (checkAlerts w) = [] \<longleftrightarrow>
        random (rnd w) (draws (rnd w)) \<le> double_0_7
        \<and> random (rnd w) (Suc (draws (rnd w))) \<le> double_0_8)"
  by (simp add: checkAlerts_def world_random_def Math_random_def Date_now_def not_less)

text \<open>
  The claim as stated fails on a freshly started module, which holds no inventory and no
  equipment at all: with both draws at 0.9 the list of alerts is not empty.
\<close>

theorem checkAlerts_without_state_counterexample:
  "fst (checkAlerts demo_started) \<noteq> []"
  by (simp add: checkAlerts_def world_random_def Math_random_def Date_now_def demo_started_eq
      demo_random_def double_0_7_def double_0_8_def)

subsection \<open>The broadcast timer\<close>

lemma broadcastTick_ok: "fst (broadcastTick gm emit s) = Inr ()"
  by (auto simp: broadcastTick_def try_catch_def split: prod.splits sum.splits)

lemma setInterval_all:
  "(\<And>s. fst (cb s) = Inr ()) \<Longrightarrow> fst (setInterval cb n s) = Inr n"
proof (induction n arbitrary: s)
  case 0
  then show ?case by simp
next
  case (Suc n)
  obtain r s1 where cb: "cb s = (r, s1)" by (cases "cb s")
  with Suc.prems[of s] have r: "r = Inr ()" by simp
  obtain r2 s2 where si: "setInterval cb n s1 = (r2, s2)" by (cases "setInterval cb n s1")
  with Suc.IH[OF Suc.prems, of s1] have "r2 = Inr n" by simp
  with cb r si show ?case by simp
qed

text \<open>
  Claim C9. A run of the timer's callback never ends in an error: an error thrown by
  \<open>getMetrics\<close> or by \<open>emit\<close> is caught in that run and written to the console with the
  message \<^verbatim>\<open>Error broadcasting real-time metrics:\<close>. So over any number \<open>n\<close> of periods all
  \<open>n\<close> runs take place, whatever failed in the runs before.
\<close>

theorem broadcast_errors_contained:
  "fst (broadcastTick getMetrics emit s) = Inr ()
   \<and> fst (setInterval (broadcastTick getMetrics emit) n s) = Inr n
   \<and> (\<forall>e w1. getMetrics (fst s) = (Inl e, w1) \<longrightarrow>
        snd (broadcastTick getMetrics emit s)
          = (console_error ''Error broadcasting real-time metrics:'' e w1, snd s))
   \<and> (\<forall>v w1 e io1. getMetrics (fst s) = (Inr v, w1)
                    \<and> emit ''real-time-metrics'' v (snd s) = (Inl e, io1) \<longrightarrow>
        snd (broadcastTick getMetrics emit s)
          = (console_error ''Error broadcasting real-time metrics:'' e w1, io1))"
proof (intro conjI)
  show "fst (broadcastTick getMetrics emit s) = Inr ()" by (rule broadcastTick_ok)
  show "fst (setInterval (broadcastTick getMetrics emit) n s) = Inr n"
    by (rule setInterval_all) (rule broadcastTick_ok)
  show "\<forall>e w1. getMetrics (fst s) = (Inl e, w1) \<longrightarrow>
          snd (broadcastTick getMetrics emit s)
            = (console_error ''Error broadcasting real-time metrics:'' e w1, snd s)"
    by (cases s) (simp add: broadcastTick_def try_catch_def)
  show "\<forall>v w1 e io1. getMetrics (fst s) = (Inr v, w1)
                    \<and> emit ''real-time-metrics'' v (snd s) = (Inl e, io1) \<longrightarrow>
          snd (broadcastTick getMetrics emit s)
            = (console_error ''Error broadcasting real-time metrics:'' e w1, io1)"
    by (cases s) (simp add: broadcastTick_def try_catch_def)
qed

text \<open>An instance: three periods with a failing \<open>getMetrics\<close>, and a failing \<open>emit\<close>.\<close>

theorem broadcast_errors_contained_witness:
  "failingMetrics (fst (demo_started, [])) = (Inl (Error ''metrics unavailable''), demo_started)
   \<and> getRealTimeMetrics (fst (demo_started, []))
       = (Inr \<lparr> currentJobs = 8, availableBays = 1, todayRevenue = 1250.75, todayJobs = 12,
                activeTechnicians = 3, queueLength = 4 \<rparr>, demo_started)
   \<and> failingEmit ''real-time-metrics''
        \<lparr> currentJobs = 8, availableBays = 1, todayRevenue = 1250.75, todayJobs = 12,
          activeTechnicians = 3, queueLength = 4 \<rparr> (snd (demo_started, []))
       = (Inl (Error ''socket closed''), [])
   \<and> fst (broadcastTick failingMetrics recordingEmit (demo_started, [])) = Inr ()
   \<and> fst (setInterval (broadcastTick failingMetrics recordingEmit) 3 (demo_started, [])) = Inr 3
   \<and> snd (broadcastTick failingMetrics recordingEmit (demo_started, []))
       = (console_error ''Error broadcasting real-time metrics:'' (Error ''metrics unavailable'')
            demo_started, [])
   \<and> snd (broadcastTick getRealTimeMetrics failingEmit (demo_started, []))
       = (console_error ''Error broadcasting real-time metrics:'' (Error ''socket closed'')
            demo_started, [])"
proof -
  have h1: "failingMetrics (fst (demo_started, []))
              = (Inl (Error ''metrics unavailable''), demo_started)"
    by (simp add: failingMetrics_def)
  have h2: "getRealTimeMetrics (fst (demo_started, []))
       = (Inr \<lparr> currentJobs = 8, availableBays = 1, todayRevenue = 1250.75, todayJobs = 12,
                activeTechnicians = 3, queueLength = 4 \<rparr>, demo_started)"
    by (simp add: getRealTimeMetrics_def)
  have h3: "failingEmit ''real-time-metrics''
        \<lparr> currentJobs = 8, availableBays = 1, todayRevenue = 1250.75, todayJobs = 12,
          activeTechnicians = 3, queueLength = 4 \<rparr> (snd (demo_started, []))
       = (Inl (Error ''socket closed''), [])"
    by (simp add: failingEmit_def)
  from broadcast_errors_contained[where getMetrics = failingMetrics and emit = recordingEmit
      and s = "(demo_started, [])" and n = 3]
    broadcast_errors_contained[where getMetrics = getRealTimeMetrics and emit = failingEmit
      and s = "(demo_started, [])" and n = 3]
    h1 h2 h3
  show ?thesis by simp
qed

end
